theory Spec2Isabelle
  imports Complex_Main "HOL-Library.Sublist" "HOL-Library.Multiset"
begin

section \<open>JavaScript strings, values and errors shared by all components\<close>

text \<open>
  A JavaScript jstring is a sequence of UTF-16 code units, and \<open>length\<close>, \<open>substring\<close>
  and \<open>includes\<close> count and compare code units.  The model keeps that: a jstring is the
  list of its code units, as natural numbers.  \<open>js\<close> embeds an ASCII literal; literals
  of the source outside ASCII are written out as code units.
\<close>

type_synonym jstring = "nat list"

definition js :: "string \<Rightarrow> jstring" where
  "js s = map of_char s"

text \<open>\<open>s.startsWith(p)\<close> and \<open>s.includes(p)\<close> (both case sensitive).\<close>

fun js_startsWith :: "jstring \<Rightarrow> jstring \<Rightarrow> bool" where
  "js_startsWith s [] = True"
| "js_startsWith [] (p # ps) = False"
| "js_startsWith (c # cs) (p # ps) = (c = p \<and> js_startsWith cs ps)"

fun js_includes :: "jstring \<Rightarrow> jstring \<Rightarrow> bool" where
  "js_includes [] p = (p = [])"
| "js_includes (c # cs) p = (js_startsWith (c # cs) p \<or> js_includes cs p)"

text \<open>\<open>s.substring(0, n)\<close> is \<open>take n s\<close>.  \<open>xs.join(sep)\<close>:\<close>

fun js_join :: "jstring \<Rightarrow> jstring list \<Rightarrow> jstring" where
  "js_join sep [] = []"
| "js_join sep [x] = x"
| "js_join sep (x # y # ys) = x @ sep @ js_join sep (y # ys)"

text \<open>
  \<open>s.trim()\<close> removes white space and line terminators at both ends: tab, line feed,
  vertical tab, form feed, carriage return, space, no-break space, the byte order mark,
  the line and paragraph separators and the other space separators of Unicode.
\<close>

definition is_space :: "nat \<Rightarrow> bool" where
  "is_space c = (c \<in> set [9, 10, 11, 12, 13, 32, 160, 5760, 8192, 8193, 8194, 8195, 8196,
      8197, 8198, 8199, 8200, 8201, 8202, 8232, 8233, 8239, 8287, 12288, 65279])"

definition trim :: "jstring \<Rightarrow> jstring" where
  "trim s = rev (dropWhile is_space (rev (dropWhile is_space s)))"

text \<open>A non-negative integer in a template literal prints in decimal.\<close>

fun js_of_nat :: "nat \<Rightarrow> jstring" where
  "js_of_nat n = (if n < 10 then [48 + n] else js_of_nat (n div 10) @ [48 + n mod 10])"

declare js_of_nat.simps [simp del]

definition js_of_int :: "int \<Rightarrow> jstring" where
  "js_of_int i = (if i < 0 then js ''-'' @ js_of_nat (nat (- i)) else js_of_nat (nat i))"

text \<open>
  A thrown JavaScript error is a value with a \<open>name\<close> and a \<open>message\<close>.
  \<open>new Error(m)\<close> has the name \<open>Error\<close>.  Every function of the source that can
  throw (or whose promise can reject) returns \<open>js_error + 'a\<close>, with \<open>Inl\<close> the error.
\<close>

datatype js_error = JsError (err_name: jstring) (err_message: jstring)

definition new_Error :: "jstring \<Rightarrow> js_error" where
  "new_Error m = JsError (js ''Error'') m"

section \<open>Task model (types/TaskTypes.ts)\<close>

datatype task_status = Created | Running | Completed | Failed

datatype progress_status = PPending | PInProgress | PCompleted | PFailed

record task_progress =
  step :: jstring
  current :: int
  total :: int
  pstatus :: progress_status
  details :: "jstring option"

record task_prompt_record =
  tpr_id :: jstring
  tpr_taskId :: jstring
  tpr_prompt :: jstring
  tpr_response :: "jstring option"
  tpr_timestamp :: nat

text \<open>
  \<open>ContentGenerationConfig\<close> and \<open>GeneratedContent\<close>: the fields the task manager and
  the task runner read.  The other fields of the two interfaces are carried along
  unread by this code and are left out.
\<close>

record generation_config =
  cfg_topic :: jstring
  cfg_wordCount :: "int option"
  cfg_enableKeywordExtraction :: "bool option"

record generated_content =
  gc_id :: jstring
  gc_title :: jstring
  gc_mainContent :: jstring

record task =
  task_id :: jstring
  topic :: jstring
  status :: task_status
  createdAt :: nat
  startedAt :: "nat option"
  completedAt :: "nat option"
  currentContent :: "generated_content option"
  progress :: "task_progress list"
  promptHistory :: "task_prompt_record list"
  generationConfig :: generation_config

text \<open>
  \<open>Partial<Task>\<close>: every key may be absent (\<open>None\<close>).  For the optional fields of
  \<open>Task\<close> a present key may still hold \<open>undefined\<close> (\<open>Some None\<close>), which the
  object spread copies like any other value.
\<close>

record task_updates =
  u_id :: "jstring option"
  u_topic :: "jstring option"
  u_status :: "task_status option"
  u_createdAt :: "nat option"
  u_startedAt :: "nat option option"
  u_completedAt :: "nat option option"
  u_currentContent :: "generated_content option option"
  u_progress :: "task_progress list option"
  u_promptHistory :: "task_prompt_record list option"
  u_generationConfig :: "generation_config option"

definition no_updates :: task_updates where
  "no_updates = \<lparr> u_id = None, u_topic = None, u_status = None, u_createdAt = None,
     u_startedAt = None, u_completedAt = None, u_currentContent = None,
     u_progress = None, u_promptHistory = None, u_generationConfig = None \<rparr>"

text \<open>One key of the spread \<open>{...task, ...updates}\<close>: the update wins when present.\<close>

definition spread_key :: "'a \<Rightarrow> 'a option \<Rightarrow> 'a" where
  "spread_key old new = (case new of None \<Rightarrow> old | Some v \<Rightarrow> v)"

definition spread_task :: "task \<Rightarrow> task_updates \<Rightarrow> task" where
  "spread_task t u =
     \<lparr> task_id = spread_key (task_id t) (u_id u),
       topic = spread_key (topic t) (u_topic u),
       status = spread_key (status t) (u_status u),
       createdAt = spread_key (createdAt t) (u_createdAt u),
       startedAt = spread_key (startedAt t) (u_startedAt u),
       completedAt = spread_key (completedAt t) (u_completedAt u),
       currentContent = spread_key (currentContent t) (u_currentContent u),
       progress = spread_key (progress t) (u_progress u),
       promptHistory = spread_key (promptHistory t) (u_promptHistory u),
       generationConfig = spread_key (generationConfig t) (u_generationConfig u) \<rparr>"

section \<open>TaskContext and TaskManagerService\<close>

text \<open>
  The process-wide state: the task registry \<open>TaskManagerService.tasks\<close> (a dictionary
  from task id to task), the slot \<open>TaskContext.currentTaskId\<close>, and, as a trace, the
  snapshots that \<open>saveTasksToStorage\<close> has written (oldest first).  The registry is
  written through on every mutation, so the trace lists every state of a task that an
  observer of the store can see.
\<close>

type_synonym task_state = "jstring \<rightharpoonup> task"

record sys_state =
  tasks :: task_state
  currentTaskId :: "jstring option"
  writes :: "task_state list"

definition setCurrentTask :: "jstring option \<Rightarrow> sys_state \<Rightarrow> sys_state" where
  "setCurrentTask taskId s = s\<lparr>currentTaskId := taskId\<rparr>"


definition saveTasksToStorage :: "sys_state \<Rightarrow> sys_state" where
  "saveTasksToStorage s = s\<lparr>writes := writes s @ [tasks s]\<rparr>"

definition not_found :: "jstring \<Rightarrow> js_error" where
  "not_found taskId = new_Error (js ''Task '' @ taskId @ js '' not found'')"

text \<open>\<open>createTask\<close>: the fresh id (\<open>generateId\<close>) and the clock are inputs.\<close>

definition createTask :: "generation_config \<Rightarrow> jstring \<Rightarrow> nat \<Rightarrow> sys_state \<Rightarrow> task \<times> sys_state" where
  "createTask config taskId now s =
     (let t = \<lparr> task_id = taskId, topic = cfg_topic config, status = Created,
                 createdAt = now, startedAt = None, completedAt = None,
                 currentContent = None, progress = [], promptHistory = [],
                 generationConfig = config \<rparr>
      in (t, saveTasksToStorage (s\<lparr>tasks := (tasks s)(taskId \<mapsto> t)\<rparr>)))"

definition getTask :: "jstring \<Rightarrow> sys_state \<Rightarrow> task option" where
  "getTask taskId s = tasks s taskId"

text \<open>
  \<open>updateTask\<close> and \<open>updateTaskProgress\<close> return the error they throw, if any, and the
  state they leave behind.
\<close>

definition updateTask :: "jstring \<Rightarrow> task_updates \<Rightarrow> sys_state \<Rightarrow> (js_error + unit) \<times> sys_state" where
  "updateTask taskId updates s =
     (case tasks s taskId of
        None \<Rightarrow> (Inl (not_found taskId), s)
      | Some t \<Rightarrow>
          (Inr (), saveTasksToStorage (s\<lparr>tasks := (tasks s)(taskId \<mapsto> spread_task t updates)\<rparr>)))"

definition updateTaskProgress :: "jstring \<Rightarrow> task_progress \<Rightarrow> sys_state \<Rightarrow> (js_error + unit) \<times> sys_state" where
  "updateTaskProgress taskId p s =
     (case tasks s taskId of
        None \<Rightarrow> (Inl (not_found taskId), s)
      | Some t \<Rightarrow>
          (Inr (), saveTasksToStorage
                     (s\<lparr>tasks := (tasks s)(taskId \<mapsto> t\<lparr>progress := progress t @ [p]\<rparr>)\<rparr>)))"

section \<open>TaskRunner.runTask\<close>

text \<open>
  The orchestrator is an input: \<open>executeFullWorkflow(topic, enableKeywordExtraction)\<close>
  resolves with a content or rejects with an error, and while the runner awaits it the
  shared state may change (other runs, the user deleting tasks), so it also returns the
  state it leaves.  The two readings of the clock are \<open>t_start\<close> and \<open>t_end\<close>.
\<close>

type_synonym orchestrator =
  "jstring \<Rightarrow> bool \<Rightarrow> sys_state \<Rightarrow> (js_error + generated_content) \<times> sys_state"

definition run_try :: "jstring \<Rightarrow> generation_config \<Rightarrow> nat \<Rightarrow> nat \<Rightarrow> orchestrator \<Rightarrow> sys_state
    \<Rightarrow> (js_error + generated_content) \<times> sys_state" where
  "run_try taskId config t_start t_end orch s0 =
     (let s1 = setCurrentTask (Some taskId) s0 in
      (case updateTask taskId
              (no_updates\<lparr>u_status := Some Running, u_startedAt := Some (Some t_start)\<rparr>) s1 of
         (Inl e, s2) \<Rightarrow> (Inl e, s2)
       | (Inr _, s2) \<Rightarrow>
      (case updateTaskProgress taskId
              \<lparr> step = (js ''Started''), current = 0, total = 100, pstatus = PInProgress,
                details = Some (js ''Task started'') \<rparr> s2 of
         (Inl e, s3) \<Rightarrow> (Inl e, s3)
       | (Inr _, s3) \<Rightarrow>
      (case orch (cfg_topic config)
              (case cfg_enableKeywordExtraction config of None \<Rightarrow> True | Some b \<Rightarrow> b) s3 of
         (Inl e, s4) \<Rightarrow> (Inl e, s4)
       | (Inr content, s4) \<Rightarrow>
      (case updateTask taskId
              (no_updates\<lparr>u_currentContent := Some (Some content), u_status := Some Completed,
                           u_completedAt := Some (Some t_end)\<rparr>) s4 of
         (Inl e, s5) \<Rightarrow> (Inl e, s5)
       | (Inr _, s5) \<Rightarrow>
      (case updateTaskProgress taskId
              \<lparr> step = (js ''Completed''), current = 100, total = 100, pstatus = PCompleted,
                details = Some (js ''Task completed successfully'') \<rparr> s5 of
         (Inl e, s6) \<Rightarrow> (Inl e, s6)
       | (Inr _, s6) \<Rightarrow> (Inr content, s6)))))))"

definition run_catch :: "jstring \<Rightarrow> js_error \<Rightarrow> sys_state \<Rightarrow> (js_error + generated_content) \<times> sys_state" where
  "run_catch taskId error s0 =
     (case updateTask taskId (no_updates\<lparr>u_status := Some Failed\<rparr>) s0 of
        (Inl e, s1) \<Rightarrow> (Inl e, s1)
      | (Inr _, s1) \<Rightarrow>
     (case updateTaskProgress taskId
             \<lparr> step = (js ''Error''), current = 100, total = 100, pstatus = PFailed,
               details = Some (err_message error) \<rparr> s1 of
        (Inl e, s2) \<Rightarrow> (Inl e, s2)
      | (Inr _, s2) \<Rightarrow> (Inl error, s2)))"

definition runTask :: "jstring \<Rightarrow> generation_config \<Rightarrow> nat \<Rightarrow> nat \<Rightarrow> orchestrator \<Rightarrow> sys_state
    \<Rightarrow> (js_error + generated_content) \<times> sys_state" where
  "runTask taskId config t_start t_end orch s =
     (case getTask taskId s of
        None \<Rightarrow> (Inl (not_found taskId), s)
      | Some task \<Rightarrow>
          (let (r, s') =
                 (case run_try taskId config t_start t_end orch s of
                    (Inr content, s1) \<Rightarrow> (Inr content, s1)
                  | (Inl e, s1) \<Rightarrow> run_catch taskId e s1)
           in (r, setCurrentTask None s')))"

text \<open>
  Observations on a run.  \<open>status_trace\<close> reads the status of one task off a list of
  snapshots and drops immediate repetitions, so it lists the transitions only.
  \<open>content_iff_completed\<close> says that in a snapshot the task has a \<open>currentContent\<close>
  exactly when its status is \<open>completed\<close>.
\<close>

definition status_trace :: "jstring \<Rightarrow> task_state list \<Rightarrow> task_status option list" where
  "status_trace taskId ws = remdups_adj (map (\<lambda>reg. map_option status (reg taskId)) ws)"

definition content_iff_completed :: "jstring \<Rightarrow> task_state \<Rightarrow> bool" where
  "content_iff_completed taskId reg =
     (case reg taskId of None \<Rightarrow> False
      | Some t \<Rightarrow> (currentContent t \<noteq> None) = (status t = Completed))"

text \<open>
  \<open>executeFullWorkflow\<close> never calls the task manager: an orchestrator run on its own
  leaves the registry and its store as they are.
\<close>

definition leaves_registry :: "orchestrator \<Rightarrow> bool" where
  "leaves_registry orch =
     (\<forall>tp kw s. tasks (snd (orch tp kw s)) = tasks s \<and> writes (snd (orch tp kw s)) = writes s)"

text \<open>A task made by \<open>createTask\<close> and then run once, as \<open>generateContent\<close> does.\<close>

definition run_of_new_task :: "generation_config \<Rightarrow> jstring \<Rightarrow> nat \<Rightarrow> nat \<Rightarrow> nat \<Rightarrow> orchestrator \<Rightarrow> sys_state
   \<Rightarrow> (js_error + generated_content) \<times> sys_state" where
  "run_of_new_task config taskId now t_start t_end orch s =
     runTask taskId config t_start t_end orch (snd (createTask config taskId now s))"

section \<open>ChunkedContentGenerator (utils/ChunkedContentGenerator.ts)\<close>

text \<open>
  The model client as the generator sees it: \<open>callLLM(prompt, {..., maxTokens})\<close> resolves
  with a string or rejects.  What it answers is decided outside the program, so the
  client is an arbitrary function of the number of calls made before, of the prompt and
  of the token limit.  Every call is logged with its outcome.
\<close>

record llm_call =
  call_prompt :: jstring
  call_maxTokens :: int
  call_outcome :: "js_error + jstring"

type_synonym llm_client = "nat \<Rightarrow> jstring \<Rightarrow> int \<Rightarrow> js_error + jstring"

definition maxTokensPerCall :: int where
  "maxTokensPerCall = 6000"

definition estimatedWordsPerCall :: int where
  "estimatedWordsPerCall = \<lfloor>real_of_int maxTokensPerCall * 0.75\<rfloor>"

text \<open>
  \<open>Math.ceil(desiredWordCount / estimatedWordsPerCall)\<close>, for an integer word count
  (in exact arithmetic: the quotient of two such integers is rounded by the hardware
  only beyond any word count that could be generated).
\<close>

definition chunksNeeded :: "int \<Rightarrow> int" where
  "chunksNeeded desiredWordCount =
     \<lceil>real_of_int desiredWordCount / real_of_int estimatedWordsPerCall\<rceil>"

text \<open>Code unit 34 is the double quote and 10 the line feed.\<close>

definition createChunkPrompt :: "jstring \<Rightarrow> jstring \<Rightarrow> nat \<Rightarrow> int \<Rightarrow> jstring" where
  "createChunkPrompt originalPrompt existingContent chunkIndex totalChunks =
     js ''Based on the main topic: '' @ [34] @ originalPrompt @ [34, 10, 10]
     @ (if existingContent \<noteq> []
        then js ''Previous content:'' @ [10] @ take 1000 existingContent @ js ''...'' @ [10, 10]
        else [])
     @ js ''Generate detailed content for part '' @ js_of_nat (chunkIndex + 1) @ js '' of ''
     @ js_of_int totalChunks @ js '' for the topic '' @ [34] @ originalPrompt @ [34] @ js ''. ''
     @ js ''Continue logically from any previous content. ''
     @ js ''Ensure this part covers significant aspects of the topic in detail. ''
     @ js ''Keep the writing style consistent with academic or educational content. ''
     @ js ''Focus on providing comprehensive information with examples where relevant.''"

text \<open>
  The \<open>for\<close> loop of \<open>generateLongContent\<close>, from index \<open>i\<close> on.  A rejected call is
  logged and thrown on by the \<open>catch\<close> block, which ends the generation.  The pause of
  one second after a call changes no value and is left out.
\<close>

function chunk_loop :: "llm_client \<Rightarrow> jstring \<Rightarrow> int \<Rightarrow> nat \<Rightarrow> jstring \<Rightarrow> llm_call list
    \<Rightarrow> (js_error + jstring) \<times> llm_call list" where
  "chunk_loop llm prompt n i fullContent calls =
     (if int i < n then
        (let chunkPrompt = createChunkPrompt prompt fullContent i n;
             outcome = llm (length calls) chunkPrompt maxTokensPerCall;
             calls' = calls @ [\<lparr> call_prompt = chunkPrompt, call_maxTokens = maxTokensPerCall,
                                 call_outcome = outcome \<rparr>]
         in case outcome of
              Inl error \<Rightarrow> (Inl error, calls')
            | Inr chunk \<Rightarrow> chunk_loop llm prompt n (Suc i) (fullContent @ chunk @ js '' '') calls')
      else (Inr (trim fullContent), calls))"
  by pat_completeness auto
termination
  by (relation "measure (\<lambda>(llm, prompt, n, i, fullContent, calls). nat (n - int i))") auto

declare chunk_loop.simps [simp del]

definition generateLongContent :: "llm_client \<Rightarrow> jstring \<Rightarrow> int \<Rightarrow> (js_error + jstring) \<times> llm_call list" where
  "generateLongContent llm prompt desiredWordCount =
     chunk_loop llm prompt (chunksNeeded desiredWordCount) 0 [] []"

text \<open>
  A client none of whose calls rejects (as \<open>RealLLMService.callLLM\<close> is), the chunk a
  logged call returned, and the chunks of a log each followed by a space.
\<close>

definition never_rejects :: "llm_client \<Rightarrow> bool" where
  "never_rejects llm = (\<forall>n p m. \<exists>c. llm n p m = Inr c)"

definition chunk_of :: "llm_call \<Rightarrow> jstring" where
  "chunk_of c = (case call_outcome c of Inr chunk \<Rightarrow> chunk | Inl e \<Rightarrow> [])"

definition spaced :: "llm_call list \<Rightarrow> jstring" where
  "spaced calls = concat (map (\<lambda>c. chunk_of c @ js '' '') calls)"

section \<open>EnhancedWorkflowOrchestrator (agents/EnhancedWorkflowOrchestrator.ts)\<close>

text \<open>
  The prompts are made from the templates of \<open>prompts.ts\<close> by \<open>String.replace\<close>.  No
  property below depends on their text, so the three prompt builders are inputs: the
  summary prompt from the search context; the section prompt from the section title,
  the topic, the search summary and the titles before and after; the explanation
  prompt from the term, the topic, the location and the content snippet.
\<close>

record prompts =
  summary_prompt :: "jstring \<Rightarrow> jstring"
  section_prompt :: "jstring \<Rightarrow> jstring \<Rightarrow> jstring \<Rightarrow> jstring \<Rightarrow> jstring \<Rightarrow> jstring"
  concept_prompt :: "jstring \<Rightarrow> jstring \<Rightarrow> jstring \<Rightarrow> jstring \<Rightarrow> jstring"

subsection \<open>summarizeSearchResults\<close>

text \<open>
  A search result: its query and its result items (as they print in a string).  The
  other fields are not read here.
\<close>

record search_result =
  sr_query :: jstring
  sr_results :: "jstring list"

text \<open>
  The search context.  Its three literals are, in code units: the heading (a Chinese
  sentence, "summarise on the basis of the following search results", a full-width
  colon and two line feeds), the label "search query" with colon and space, and the
  label "result" with colon and space.  Of each result the first five items are kept.
\<close>

definition context_heading :: jstring where
  "context_heading = [22522, 20110, 20197, 19979, 25628, 32034, 32467, 26524, 24635, 32467,
                      65306, 10, 10]"

definition query_label :: jstring where
  "query_label = [25628, 32034, 26597, 35810, 58, 32]"

definition result_label :: jstring where
  "result_label = [32467, 26524, 58, 32]"

definition search_context :: "search_result list \<Rightarrow> jstring" where
  "search_context searchResults =
     foldl (\<lambda>searchContext result.
              searchContext @ query_label @ sr_query result @ [10]
                @ result_label @ js_join (js '' '') (take 5 (sr_results result)) @ [10, 10])
           context_heading searchResults"

text \<open>
  The retry loop, from the given attempt on.  The last line of the function,
  \<open>return searchContext\<close>, is the branch taken when the loop is left.
\<close>

function summarize_loop :: "llm_client \<Rightarrow> jstring \<Rightarrow> jstring \<Rightarrow> nat \<Rightarrow> llm_call list
    \<Rightarrow> (js_error + jstring) \<times> llm_call list" where
  "summarize_loop llm summaryPrompt searchContext attempt calls =
     (if attempt < 3 then
        (let outcome = llm (length calls) summaryPrompt 5000;
             calls' = calls @ [\<lparr> call_prompt = summaryPrompt, call_maxTokens = 5000,
                                 call_outcome = outcome \<rparr>]
         in case outcome of
              Inr summary \<Rightarrow> (Inr summary, calls')
            | Inl error \<Rightarrow>
                if attempt = 2 then (Inl error, calls')
                else summarize_loop llm summaryPrompt searchContext (Suc attempt) calls')
      else (Inr searchContext, calls))"
  by pat_completeness auto
termination
  by (relation "measure (\<lambda>(llm, summaryPrompt, searchContext, attempt, calls). 3 - attempt)") auto

declare summarize_loop.simps [simp del]

definition summarizeSearchResults :: "llm_client \<Rightarrow> prompts \<Rightarrow> search_result list
    \<Rightarrow> (js_error + jstring) \<times> llm_call list" where
  "summarizeSearchResults llm ps searchResults =
     (let searchContext = search_context searchResults;
          summaryPrompt = summary_prompt ps searchContext
      in summarize_loop llm summaryPrompt searchContext 0 [])"

subsection \<open>Concurrent tasks and Promise.all\<close>



subsection \<open>generateComprehensiveContent\<close>
















subsection \<open>generateDetailedConceptExplanations\<close>










subsection \<open>Outcomes of the attempts of one task\<close>





section \<open>RealLLMService.callLLM (utils/RealLLMService.ts, two versions)\<close>

text \<open>
  The repository holds two versions of the file: \<open>src/unnamed/part_009\<close>, whose
  \<open>callLLM\<close> retries on rate limits, and \<open>src/src/utils/RealLLMService.ts\<close>, whose
  \<open>callLLM\<close> does not.  Both record the prompt and log the call (\<open>PromptTracker\<close>,
  \<open>logger\<close>, \<open>realTimeLogger\<close>, \<open>HistoryService\<close>); these calls catch their own errors or
  sit in a \<open>try\<close> block, have no part in the value returned, and are left out.
\<close>

text \<open>
  The service reads two things of its configuration: the API key (the constructor
  puts the placeholder there when none is configured) and whether the backend proxy
  is switched on (\<open>VITE_USE_BACKEND_PROXY === 'true'\<close>).
\<close>

record llm_service =
  svc_apiKey :: jstring
  svc_useBackend :: bool

definition placeholder_key :: jstring where
  "placeholder_key = js ''your-api-key-here''"

definition maxRetries :: nat where
  "maxRetries = 3"

subsection \<open>The transport\<close>

text \<open>
  \<open>fetch\<close> rejects with an error or resolves with a response.  Of a response the code
  reads the status, the status text, the body as text (\<open>text()\<close> may reject) and the
  body as JSON.  Of the JSON it reads only what the following views keep.

  A value on which the code calls \<open>substring\<close> is a string, or it is anything else and
  the call throws a TypeError (whose message is the engine's).

  The chat completion body: \<open>json()\<close> rejects; or reading \<open>data.choices\<close> throws (the
  body is \<open>null\<close>); or \<open>data.choices[0].message\<close> is truthy, with its \<open>content\<close>; or it
  is not, with \<open>JSON.stringify(data)\<close>.

  The proxy body: \<open>json()\<close> rejects; or reading \<open>responseData.success\<close> throws; or
  \<open>success\<close> is truthy, with \<open>responseData.result\<close>; or it is falsy, and then
  \<open>responseData.error\<close> is falsy, or has the code \<open>limit_requests\<close> (kept: its \<open>message\<close>
  as printed in a template; such an error is an object, so \<open>new Error\<close> of it has the
  message \<open>[object Object]\<close>), or is another truthy value (kept: the message of
  \<open>new Error(responseData.error)\<close>).
\<close>

datatype js_content = Str jstring | NotString js_error

datatype chat_json =
    ChatRejects js_error
  | ChatThrows js_error
  | ChatChoice js_content
  | ChatOther jstring

datatype backend_failure = NoError | LimitRequests jstring | OtherError jstring

datatype backend_json =
    BackendRejects js_error
  | BackendThrows js_error
  | BackendSuccess js_content
  | BackendFailure backend_failure

record 'j http_response =
  resp_status :: nat
  resp_statusText :: jstring
  resp_text :: "js_error + jstring"
  resp_json :: 'j

definition response_ok :: "'j http_response \<Rightarrow> bool" where
  "response_ok r = (200 \<le> resp_status r \<and> resp_status r \<le> 299)"

datatype 'j fetch_outcome = FetchRejects js_error | FetchResolves "'j http_response"

text \<open>
  What a \<open>fetch\<close> answers is decided outside the program: the transport gives, for the
  proxy and for the API, the outcome of a \<open>fetch\<close> as a function of the number of
  fetches that \<open>callLLM\<close> made before it.  The contents of the request are not
  modelled.  A run logs its fetches and its waits (in milliseconds).
\<close>

record transport =
  backend_fetch :: "nat \<Rightarrow> backend_json fetch_outcome"
  direct_fetch :: "nat \<Rightarrow> chat_json fetch_outcome"

datatype event = FetchBackend | FetchDirect | Wait nat

fun is_fetch :: "event \<Rightarrow> bool" where
  "is_fetch (Wait ms) = False"
| "is_fetch e = True"

definition fetches :: "event list \<Rightarrow> nat" where
  "fetches events = length (filter is_fetch events)"

fun wait_ms :: "event \<Rightarrow> nat" where
  "wait_ms (Wait ms) = ms"
| "wait_ms e = 0"

definition total_wait :: "event list \<Rightarrow> nat" where
  "total_wait events = sum_list (map wait_ms events)"

subsection \<open>The strings callLLM returns\<close>

definition skip_sentinel :: jstring where
  "skip_sentinel = js ''Rate limit error occurred, skipping this term.''"

definition timeout_message :: jstring where
  "timeout_message =
     js ''Request timeout: The LLM API call took more than 20 minutes. ''
     @ js ''This may indicate network issues or a particularly complex request. The ''
     @ [39] @ js ''qwen-max-latest'' @ [39]
     @ js '' model can take extended time for complex content generation.''"

definition cors_message :: jstring where
  "cors_message =
     js ''CORS error: The browser is blocking the request. This commonly happens when ''
     @ js ''calling LLM APIs directly from a browser. Recommended solutions: ''
     @ js ''1) Set up a backend proxy service, 2) Use VITE_USE_BACKEND_PROXY=true in your ''
     @ js ''environment to use the backend service, 3) Configure a proxy in your ''
     @ js ''development server.''"

definition network_error_message :: "js_error \<Rightarrow> jstring" where
  "network_error_message errorObj =
     (if err_name errorObj = js ''AbortError'' then timeout_message
      else if js_includes (err_message errorObj) (js ''CORS'')
              \<or> js_includes (err_message errorObj) (js ''cross-origin'') then cors_message
      else js ''Network error: '' @ err_message errorObj
           @ js ''. This may be due to CORS restrictions when calling the API directly from ''
           @ js ''the browser, or network connectivity issues. Recommended: Use a backend ''
           @ js ''service to proxy API calls.'')"

definition http_error_message :: "'j http_response \<Rightarrow> jstring \<Rightarrow> jstring" where
  "http_error_message response errorBody =
     js ''HTTP error: '' @ js_of_nat (resp_status response) @ js '' ''
     @ resp_statusText response @ js ''. '' @ errorBody"

definition general_error_message :: "js_error \<Rightarrow> jstring" where
  "general_error_message error = js ''Error occurred while calling the LLM: '' @ err_message error"

text \<open>
  The mock response.  \<open>first_line\<close> is the first line of the template: the older
  version of the file has a space at its end, the newer one has none.
\<close>

definition mock_response :: "jstring \<Rightarrow> jstring \<Rightarrow> jstring" where
  "mock_response first_line prompt =
     first_line @ [10]
     @ js ''To get real content, please set your API key using one of these environment variables:''
     @ [10] @ js ''- VITE_DASHSCOPE_API_KEY for Qwen/DashScope''
     @ [10] @ js ''- VITE_IDEALAB_API_KEY for Idealab''
     @ [10] @ js ''- VITE_OPENAI_API_KEY for OpenAI''
     @ [10, 10] @ js ''Your prompt was: '' @ [34] @ take 100 prompt
     @ (if length prompt > 100 then js ''...'' else []) @ [34]"

definition mock_first_line :: jstring where
  "mock_first_line = js ''This is a mock response because no API key is configured.''"

subsection \<open>The version with the retry loop\<close>

text \<open>
  Where control goes at the end of a block of the loop body: \<open>return\<close> of a string;
  \<open>continue\<close> after the wait; a \<open>throw\<close> to the enclosing \<open>catch\<close>; or on to the
  statement after the block.
\<close>

datatype step = Returns jstring | Again nat | Throws js_error | FallsThrough

text \<open>
  The pattern of every rate-limit branch: \<open>attempts++\<close>, then wait
  \<open>2 ^ attempts\<close> seconds and \<open>continue\<close> while \<open>attempts <= maxRetries\<close>, or else do what the
  branch does when the retries are used up.  The new value of \<open>attempts\<close> is returned
  with the step.
\<close>

definition rate_limited :: "nat \<Rightarrow> step \<Rightarrow> step \<times> nat" where
  "rate_limited attempts exhausted =
     (let attempts' = attempts + 1
      in if attempts' \<le> maxRetries then (Again (2 ^ attempts' * 1000), attempts')
         else (exhausted, attempts'))"

definition retries_message :: jstring where
  "retries_message = js ''Rate limit exceeded after '' @ js_of_nat maxRetries @ js '' retries: ''"

text \<open>The \<open>try\<close> block of the proxy call, given the outcome of its \<open>fetch\<close>.\<close>

definition backend_try :: "backend_json fetch_outcome \<Rightarrow> nat \<Rightarrow> step \<times> nat" where
  "backend_try outcome attempts =
     (case outcome of
        FetchRejects e \<Rightarrow> (Throws e, attempts)
      | FetchResolves backendResponse \<Rightarrow>
          if \<not> response_ok backendResponse then
            (let limited = rate_limited attempts
                   (Throws (new_Error (retries_message @ js_of_nat (resp_status backendResponse)
                                       @ js '' '' @ resp_statusText backendResponse)));
                 other = (Throws (new_Error (js ''Backend service error: ''
                                       @ js_of_nat (resp_status backendResponse)
                                       @ js '' '' @ resp_statusText backendResponse)), attempts)
             in if resp_status backendResponse = 429 then limited
                else (case resp_text backendResponse of
                        Inl e \<Rightarrow> (Throws e, attempts)
                      | Inr body \<Rightarrow> if js_includes body (js ''limit_requests'') then limited else other))
          else
            (case resp_json backendResponse of
               BackendRejects e \<Rightarrow> (Throws e, attempts)
             | BackendThrows e \<Rightarrow> (Throws e, attempts)
             | BackendFailure failure \<Rightarrow>
                 (case failure of
                    LimitRequests message \<Rightarrow>
                      rate_limited attempts (Throws (new_Error (retries_message @ message)))
                  | NoError \<Rightarrow> (Throws (new_Error (js ''Backend service returned error'')), attempts)
                  | OtherError message \<Rightarrow> (Throws (new_Error message), attempts))
             | BackendSuccess content \<Rightarrow>
                 (case content of
                    Str c \<Rightarrow> (Returns c, attempts)
                  | NotString e \<Rightarrow> (Throws e, attempts))))"

text \<open>
  The \<open>catch (backendError)\<close> block, with its test of the error message (the test is
  case sensitive).
\<close>

definition proxy_mentions_rate_limit :: "jstring \<Rightarrow> bool" where
  "proxy_mentions_rate_limit errorMsg =
     (js_includes errorMsg (js ''limit_requests'') \<or> js_includes errorMsg (js ''rate limit''))"

definition backend_catch :: "js_error \<Rightarrow> nat \<Rightarrow> step \<times> nat" where
  "backend_catch backendError attempts =
     (let errorMsg = err_message backendError
      in if proxy_mentions_rate_limit errorMsg
         then rate_limited attempts (Returns skip_sentinel)
         else (FallsThrough, attempts))"

text \<open>
  The direct call, after the check of the API key: the \<open>catch (fetchError)\<close> block, the
  branch for a response that is not ok, and the extraction of the content.
\<close>

definition direct_call :: "chat_json fetch_outcome \<Rightarrow> nat \<Rightarrow> step \<times> nat" where
  "direct_call outcome attempts =
     (case outcome of
        FetchRejects fetchError \<Rightarrow> (Returns (network_error_message fetchError), attempts)
      | FetchResolves response \<Rightarrow>
          if \<not> response_ok response then
            (case resp_text response of
               Inl e \<Rightarrow> (Throws e, attempts)
             | Inr errorBody \<Rightarrow>
                 if resp_status response = 429 \<or> js_includes errorBody (js ''limit_requests'')
                 then rate_limited attempts (Returns skip_sentinel)
                 else (Returns (http_error_message response errorBody), attempts))
          else
            (case resp_json response of
               ChatRejects e \<Rightarrow> (Throws e, attempts)
             | ChatThrows e \<Rightarrow> (Throws e, attempts)
             | ChatChoice content \<Rightarrow>
                 (case content of
                    Str c \<Rightarrow> (Returns c, attempts)
                  | NotString e \<Rightarrow> (Throws e, attempts))
             | ChatOther stringified \<Rightarrow> (Returns stringified, attempts)))"

text \<open>The outer \<open>catch (error)\<close> block, with its test of the error message.\<close>

definition mentions_rate_limit :: "jstring \<Rightarrow> bool" where
  "mentions_rate_limit errorMsg =
     (js_includes errorMsg (js ''limit_requests'') \<or> js_includes errorMsg (js ''rate limit'')
      \<or> js_includes errorMsg (js ''429''))"

definition outer_catch :: "js_error \<Rightarrow> nat \<Rightarrow> step \<times> nat" where
  "outer_catch error attempts =
     (let errorMsg = err_message error
      in if mentions_rate_limit errorMsg
         then rate_limited attempts (Returns skip_sentinel)
         else (Returns (general_error_message error), attempts))"

text \<open>
  One pass through the body of the \<open>while\<close> loop: the proxy part when it is switched
  on, then the mock response when no key is configured, then the direct call, and the
  outer \<open>catch\<close> for what the direct part throws.  The result is the step taken, the new
  value of \<open>attempts\<close> and the log.
\<close>

definition proxy_part :: "llm_service \<Rightarrow> transport \<Rightarrow> nat \<Rightarrow> event list \<Rightarrow> step \<times> nat \<times> event list" where
  "proxy_part svc tr attempts events =
     (if svc_useBackend svc then
        (case backend_try (backend_fetch tr (fetches events)) attempts of
           (Throws backendError, attempts') \<Rightarrow>
             (case backend_catch backendError attempts' of
                (s, attempts'') \<Rightarrow> (s, attempts'', events @ [FetchBackend]))
         | (s, attempts') \<Rightarrow> (s, attempts', events @ [FetchBackend]))
      else (FallsThrough, attempts, events))"

definition direct_part :: "llm_service \<Rightarrow> transport \<Rightarrow> jstring \<Rightarrow> nat \<Rightarrow> event list \<Rightarrow> step \<times> nat \<times> event list" where
  "direct_part svc tr prompt attempts events =
     (if svc_apiKey svc = placeholder_key
      then (Returns (mock_response mock_first_line prompt), attempts, events)
      else (case direct_call (direct_fetch tr (fetches events)) attempts of
              (Throws error, attempts') \<Rightarrow>
                (case outer_catch error attempts' of
                   (s, attempts'') \<Rightarrow> (s, attempts'', events @ [FetchDirect]))
            | (s, attempts') \<Rightarrow> (s, attempts', events @ [FetchDirect])))"

definition iteration :: "llm_service \<Rightarrow> transport \<Rightarrow> jstring \<Rightarrow> nat \<Rightarrow> event list \<Rightarrow> step \<times> nat \<times> event list" where
  "iteration svc tr prompt attempts events =
     (case proxy_part svc tr attempts events of
        (FallsThrough, attempts', events') \<Rightarrow> direct_part svc tr prompt attempts' events'
      | other \<Rightarrow> other)"

text \<open>
  A rate-limit branch continues only with \<open>attempts\<close> raised by one and still within
  \<open>maxRetries\<close>; the loop terminates by this.
\<close>

lemma rate_limited_Again:
  "rate_limited attempts exhausted = (Again ms, attempts') \<Longrightarrow> exhausted \<noteq> Again ms \<Longrightarrow>
   attempts' = attempts + 1 \<and> attempts' \<le> maxRetries"
  by (auto simp: rate_limited_def Let_def split: if_splits)

lemma backend_try_Again:
  "backend_try outcome attempts = (Again ms, attempts') \<Longrightarrow>
   attempts' = attempts + 1 \<and> attempts' \<le> maxRetries"
  by (auto simp: backend_try_def Let_def
      split: fetch_outcome.splits if_splits sum.splits backend_json.splits backend_failure.splits
        js_content.splits
      dest!: rate_limited_Again)

lemma backend_try_attempts:
  "backend_try outcome attempts = (s, attempts') \<Longrightarrow> attempts \<le> attempts'"
  by (auto simp: backend_try_def rate_limited_def Let_def
      split: fetch_outcome.splits if_splits sum.splits backend_json.splits backend_failure.splits
        js_content.splits)

lemma backend_catch_Again:
  "backend_catch e attempts = (Again ms, attempts') \<Longrightarrow>
   attempts' = attempts + 1 \<and> attempts' \<le> maxRetries"
  by (auto simp: backend_catch_def Let_def split: if_splits dest!: rate_limited_Again)

lemma direct_call_Again:
  "direct_call outcome attempts = (Again ms, attempts') \<Longrightarrow>
   attempts' = attempts + 1 \<and> attempts' \<le> maxRetries"
  by (auto simp: direct_call_def
      split: fetch_outcome.splits if_splits sum.splits chat_json.splits js_content.splits
      dest!: rate_limited_Again)

lemma direct_call_attempts:
  "direct_call outcome attempts = (s, attempts') \<Longrightarrow> attempts \<le> attempts'"
  by (auto simp: direct_call_def rate_limited_def Let_def
      split: fetch_outcome.splits if_splits sum.splits chat_json.splits js_content.splits)

lemma outer_catch_Again:
  "outer_catch e attempts = (Again ms, attempts') \<Longrightarrow>
   attempts' = attempts + 1 \<and> attempts' \<le> maxRetries"
  by (auto simp: outer_catch_def Let_def split: if_splits dest!: rate_limited_Again)

lemma proxy_part_Again:
  "proxy_part svc tr attempts events = (Again ms, attempts', events') \<Longrightarrow>
   attempts < attempts' \<and> attempts' \<le> maxRetries"
  by (auto simp: proxy_part_def split: if_splits prod.splits step.splits
      dest!: backend_try_Again backend_catch_Again dest: backend_try_attempts)

lemma proxy_part_FallsThrough:
  "proxy_part svc tr attempts events = (FallsThrough, attempts', events') \<Longrightarrow> attempts \<le> attempts'"
  by (auto simp: proxy_part_def backend_catch_def rate_limited_def Let_def
      split: if_splits prod.splits step.splits dest: backend_try_attempts)

lemma direct_part_Again:
  "direct_part svc tr prompt attempts events = (Again ms, attempts', events') \<Longrightarrow>
   attempts < attempts' \<and> attempts' \<le> maxRetries"
  by (auto simp: direct_part_def split: if_splits prod.splits step.splits
      dest!: direct_call_Again outer_catch_Again dest: direct_call_attempts)

lemma iteration_Again:
  "iteration svc tr prompt attempts events = (Again ms, attempts', events') \<Longrightarrow>
   attempts < attempts' \<and> attempts' \<le> maxRetries"
  by (auto simp: iteration_def split: prod.splits step.splits
      dest!: proxy_part_Again direct_part_Again dest: proxy_part_FallsThrough)

text \<open>
  The \<open>while (attempts <= maxRetries)\<close> loop.  The promise resolves with the string
  returned, and with \<open>undefined\<close> (\<open>None\<close>) if the loop is left.  An error that no
  \<open>catch\<close> block takes would reject it.
\<close>

function callLLM_loop :: "llm_service \<Rightarrow> transport \<Rightarrow> jstring \<Rightarrow> nat \<Rightarrow> event list
    \<Rightarrow> (js_error + jstring option) \<times> event list" where
  "callLLM_loop svc tr prompt attempts events =
     (if attempts \<le> maxRetries then
        (case iteration svc tr prompt attempts events of
           (Returns content, attempts', events') \<Rightarrow> (Inr (Some content), events')
         | (Again ms, attempts', events') \<Rightarrow>
             callLLM_loop svc tr prompt attempts' (events' @ [Wait ms])
         | (Throws error, attempts', events') \<Rightarrow> (Inl error, events')
         | (FallsThrough, attempts', events') \<Rightarrow> (Inr None, events'))
      else (Inr None, events))"
  by pat_completeness auto
termination
  by (relation "measure (\<lambda>(svc, tr, prompt, attempts, events). maxRetries + 1 - attempts)")
     (auto dest!: iteration_Again [OF sym])

declare callLLM_loop.simps [simp del]

definition callLLM :: "llm_service \<Rightarrow> transport \<Rightarrow> jstring \<Rightarrow> (js_error + jstring option) \<times> event list" where
  "callLLM svc tr prompt = callLLM_loop svc tr prompt 0 []"

subsection \<open>The version without the retry loop\<close>

text \<open>
  The older \<open>callLLM\<close>: one \<open>try\<close> block.  It answers with the mock response before
  anything else when no key is configured; its proxy part goes on to the direct call
  after any failure; a response that is not ok gives the HTTP error string; and its
  \<open>catch\<close> block returns the general error string.
\<close>

definition noretry_backend_try :: "backend_json fetch_outcome \<Rightarrow> step" where
  "noretry_backend_try outcome =
     (case outcome of
        FetchRejects e \<Rightarrow> Throws e
      | FetchResolves backendResponse \<Rightarrow>
          if \<not> response_ok backendResponse
          then Throws (new_Error (js ''Backend service error: ''
                          @ js_of_nat (resp_status backendResponse)
                          @ js '' '' @ resp_statusText backendResponse))
          else
            (case resp_json backendResponse of
               BackendRejects e \<Rightarrow> Throws e
             | BackendThrows e \<Rightarrow> Throws e
             | BackendFailure failure \<Rightarrow>
                 (case failure of
                    NoError \<Rightarrow> Throws (new_Error (js ''Backend service returned error''))
                  | LimitRequests message \<Rightarrow> Throws (new_Error (js ''[object Object]''))
                  | OtherError message \<Rightarrow> Throws (new_Error message))
             | BackendSuccess content \<Rightarrow>
                 (case content of
                    Str c \<Rightarrow> Returns c
                  | NotString e \<Rightarrow> Throws e)))"

definition noretry_direct_call :: "chat_json fetch_outcome \<Rightarrow> step" where
  "noretry_direct_call outcome =
     (case outcome of
        FetchRejects fetchError \<Rightarrow> Returns (network_error_message fetchError)
      | FetchResolves response \<Rightarrow>
          if \<not> response_ok response then
            (case resp_text response of
               Inl e \<Rightarrow> Throws e
             | Inr errorBody \<Rightarrow> Returns (http_error_message response errorBody))
          else
            (case resp_json response of
               ChatRejects e \<Rightarrow> Throws e
             | ChatThrows e \<Rightarrow> Throws e
             | ChatChoice content \<Rightarrow>
                 (case content of
                    Str c \<Rightarrow> Returns c
                  | NotString e \<Rightarrow> Throws e)
             | ChatOther stringified \<Rightarrow> Returns stringified))"

definition callLLM_noretry :: "llm_service \<Rightarrow> transport \<Rightarrow> jstring \<Rightarrow> (js_error + jstring option) \<times> event list" where
  "callLLM_noretry svc tr prompt =
     (if svc_apiKey svc = placeholder_key
      then (Inr (Some (mock_response (mock_first_line @ js '' '') prompt)), [])
      else
        (let (proxy, events) =
               (if svc_useBackend svc
                then (case noretry_backend_try (backend_fetch tr 0) of
                        Returns c \<Rightarrow> (Returns c, [FetchBackend])
                      | other \<Rightarrow> (FallsThrough, [FetchBackend]))
                else (FallsThrough, []))
         in case proxy of
              Returns c \<Rightarrow> (Inr (Some c), events)
            | other \<Rightarrow>
                (case noretry_direct_call (direct_fetch tr (fetches events)) of
                   Returns c \<Rightarrow> (Inr (Some c), events @ [FetchDirect])
                 | Throws error \<Rightarrow> (Inr (Some (general_error_message error)), events @ [FetchDirect])
                 | other \<Rightarrow> (Inr None, events @ [FetchDirect]))))"

subsection \<open>Transports that are always rate limited\<close>

text \<open>
  The API answers a fetch with a rate-limit error: a response that is not ok, with
  status 429 or a body that contains \<open>limit_requests\<close>.
\<close>

definition api_rate_limited :: "chat_json fetch_outcome \<Rightarrow> bool" where
  "api_rate_limited outcome =
     (case outcome of
        FetchRejects e \<Rightarrow> False
      | FetchResolves r \<Rightarrow>
          \<not> response_ok r \<and>
          (case resp_text r of
             Inl e \<Rightarrow> False
           | Inr body \<Rightarrow> resp_status r = 429 \<or> js_includes body (js ''limit_requests'')))"

section \<open>Example inputs\<close>

definition demo_config :: generation_config where
  "demo_config = \<lparr> cfg_topic = (js ''quantum computing''), cfg_wordCount = None,
                   cfg_enableKeywordExtraction = None \<rparr>"

definition demo_content :: generated_content where
  "demo_content = \<lparr> gc_id = (js ''c1''), gc_title = (js ''Quantum computing''),
                    gc_mainContent = (js ''## Definition'') \<rparr>"

definition orch_ok :: orchestrator where
  "orch_ok tp kw s = (Inr demo_content, s)"

definition orch_fail :: orchestrator where
  "orch_fail tp kw s = (Inl (new_Error (js ''boom'')), s)"

definition empty_state :: sys_state where
  "empty_state = \<lparr> tasks = Map.empty, currentTaskId = None, writes = [] \<rparr>"






definition numbered_client :: llm_client where
  "numbered_client n p m = Inr (js ''chunk'' @ js_of_nat n)"












definition live_service :: llm_service where
  "live_service = \<lparr> svc_apiKey = js ''sk-live'', svc_useBackend = False \<rparr>"

definition proxied_service :: llm_service where
  "proxied_service = \<lparr> svc_apiKey = js ''sk-live'', svc_useBackend = True \<rparr>"

text \<open>Responses: 429 from the API and from the proxy, 500, and two successes.\<close>

definition too_many_requests :: "chat_json http_response" where
  "too_many_requests =
     \<lparr> resp_status = 429, resp_statusText = js ''Too Many Requests'',
       resp_text = Inr (js ''slow down''), resp_json = ChatOther (js ''{}'') \<rparr>"

definition proxy_too_many_requests :: "backend_json http_response" where
  "proxy_too_many_requests =
     \<lparr> resp_status = 429, resp_statusText = js ''Too Many Requests'',
       resp_text = Inr (js ''slow down''), resp_json = BackendFailure NoError \<rparr>"



definition completion :: "chat_json http_response" where
  "completion =
     \<lparr> resp_status = 200, resp_statusText = js ''OK'', resp_text = Inr (js ''{...}''),
       resp_json = ChatChoice (Str (js ''Tides follow the moon.'')) \<rparr>"

definition proxy_completion :: "backend_json http_response" where
  "proxy_completion =
     \<lparr> resp_status = 200, resp_statusText = js ''OK'', resp_text = Inr (js ''{...}''),
       resp_json = BackendSuccess (Str (js ''Tides follow the moon.'')) \<rparr>"


text \<open>Transports that answer every fetch the same way.\<close>

definition throttled :: transport where
  "throttled = \<lparr> backend_fetch = (\<lambda>n. FetchResolves proxy_too_many_requests),
                 direct_fetch = (\<lambda>n. FetchResolves too_many_requests) \<rparr>"




definition healthy :: transport where
  "healthy = \<lparr> backend_fetch = (\<lambda>n. FetchResolves proxy_completion),
               direct_fetch = (\<lambda>n. FetchResolves completion) \<rparr>"

section \<open>Task manager: updates, lifecycle and the current-task context\<close>









text \<open>
  C7.  A task made by \<open>createTask\<close> and run once by \<open>runTask\<close>, with an orchestrator that
  leaves the registry alone: the statuses that the store sees for the task, from its
  creation on, are exactly created, running, completed when the orchestrator resolves,
  and exactly created, running, failed when it rejects.  So no state follows a terminal
  one.  After the run the task holds the generated content in the first case and none
  in the second, and in every snapshot written the task has a content if and only if
  it is completed.
\<close>

theorem task_lifecycle_monotonic:
  assumes fr: "leaves_registry orch"
  shows "let r = run_of_new_task config taskId now t_start t_end orch s;
             new = drop (length (writes s)) (writes (snd r))
         in (case fst r of
               Inr c \<Rightarrow> status_trace taskId new = [Some Created, Some Running, Some Completed]
                        \<and> map_option currentContent (tasks (snd r) taskId) = Some (Some c)
             | Inl e \<Rightarrow> status_trace taskId new = [Some Created, Some Running, Some Failed]
                        \<and> map_option currentContent (tasks (snd r) taskId) = Some None)
            \<and> list_all (content_iff_completed taskId) new"
proof -
  define s1 where "s1 = snd (createTask config taskId now s)"
  define u0 where "u0 = no_updates\<lparr>u_status := Some Running, u_startedAt := Some (Some t_start)\<rparr>"
  define s2 where "s2 = snd (updateTask taskId u0 (setCurrentTask (Some taskId) s1))"
  define p0 where "p0 = \<lparr> step = (js ''Started''), current = 0, total = 100, pstatus = PInProgress,
               details = Some (js ''Task started'') \<rparr>"
  define s3 where "s3 = snd (updateTaskProgress taskId p0 s2)"
  define kw where "kw = (case cfg_enableKeywordExtraction config of None \<Rightarrow> True | Some b \<Rightarrow> b)"
  obtain ro s4 where o: "orch (cfg_topic config) kw s3 = (ro, s4)"
    by (cases "orch (cfg_topic config) kw s3")
  from fr have s4: "tasks s4 = tasks s3" "writes s4 = writes s3"
    using o unfolding leaves_registry_def by (metis snd_conv)+
  show ?thesis
  proof (cases ro)
    case (Inl e)
    show ?thesis
      using o s4 Inl
      unfolding run_of_new_task_def s3_def s2_def s1_def u0_def p0_def kw_def
      by (simp add: runTask_def run_try_def run_catch_def getTask_def createTask_def
          updateTask_def updateTaskProgress_def saveTasksToStorage_def setCurrentTask_def
          spread_task_def spread_key_def no_updates_def status_trace_def
          content_iff_completed_def Let_def)
  next
    case (Inr c)
    show ?thesis
      using o s4 Inr
      unfolding run_of_new_task_def s3_def s2_def s1_def u0_def p0_def kw_def
      by (simp add: runTask_def run_try_def run_catch_def getTask_def createTask_def
          updateTask_def updateTaskProgress_def saveTasksToStorage_def setCurrentTask_def
          spread_task_def spread_key_def no_updates_def status_trace_def
          content_iff_completed_def Let_def)
  qed
qed

lemma orch_ok_leaves_registry: "leaves_registry orch_ok"
  by (simp add: leaves_registry_def orch_ok_def)

lemma orch_fail_leaves_registry: "leaves_registry orch_fail"
  by (simp add: leaves_registry_def orch_fail_def)

lemma run_ok_result:
  "fst (run_of_new_task demo_config (js ''t1'') 5 10 20 orch_ok empty_state) = Inr demo_content"
  by (simp add: run_of_new_task_def runTask_def run_try_def getTask_def createTask_def
      updateTask_def updateTaskProgress_def saveTasksToStorage_def setCurrentTask_def
      orch_ok_def empty_state_def Let_def)

lemma run_fail_result:
  "fst (run_of_new_task demo_config (js ''t1'') 5 10 20 orch_fail empty_state) = Inl (new_Error (js ''boom''))"
  by (simp add: run_of_new_task_def runTask_def run_try_def run_catch_def getTask_def
      createTask_def updateTask_def updateTaskProgress_def saveTasksToStorage_def
      setCurrentTask_def orch_fail_def empty_state_def Let_def)

theorem task_lifecycle_monotonic_witness:
  "leaves_registry orch_ok \<and> leaves_registry orch_fail \<and>
   status_trace (js ''t1'') (writes (snd (run_of_new_task demo_config (js ''t1'') 5 10 20 orch_ok empty_state)))
     = [Some Created, Some Running, Some Completed] \<and>
   map_option currentContent
       (tasks (snd (run_of_new_task demo_config (js ''t1'') 5 10 20 orch_ok empty_state)) (js ''t1''))
     = Some (Some demo_content) \<and>
   status_trace (js ''t1'') (writes (snd (run_of_new_task demo_config (js ''t1'') 5 10 20 orch_fail empty_state)))
     = [Some Created, Some Running, Some Failed] \<and>
   map_option currentContent
       (tasks (snd (run_of_new_task demo_config (js ''t1'') 5 10 20 orch_fail empty_state)) (js ''t1''))
     = Some None"
proof -
  have w0: "drop (length (writes empty_state)) ws = ws" for ws :: "task_state list"
    by (simp add: empty_state_def)
  from task_lifecycle_monotonic [OF orch_ok_leaves_registry, of demo_config "js ''t1''" 5 10 20 empty_state]
  have a: "status_trace (js ''t1'') (writes (snd (run_of_new_task demo_config (js ''t1'') 5 10 20 orch_ok empty_state)))
       = [Some Created, Some Running, Some Completed] \<and>
     map_option currentContent
         (tasks (snd (run_of_new_task demo_config (js ''t1'') 5 10 20 orch_ok empty_state)) (js ''t1''))
       = Some (Some demo_content)"
    by (simp add: Let_def run_ok_result w0)
  from task_lifecycle_monotonic [OF orch_fail_leaves_registry, of demo_config "js ''t1''" 5 10 20 empty_state]
  have b: "status_trace (js ''t1'') (writes (snd (run_of_new_task demo_config (js ''t1'') 5 10 20 orch_fail empty_state)))
       = [Some Created, Some Running, Some Failed] \<and>
     map_option currentContent
         (tasks (snd (run_of_new_task demo_config (js ''t1'') 5 10 20 orch_fail empty_state)) (js ''t1''))
       = Some None"
    by (simp add: Let_def run_fail_result w0)
  from a b orch_ok_leaves_registry orch_fail_leaves_registry show ?thesis by simp
qed




section \<open>Chunked generation: number of calls and result\<close>

lemma estimatedWordsPerCall_value: "estimatedWordsPerCall = 4500"
  by (simp add: estimatedWordsPerCall_def maxTokensPerCall_def)

lemma chunk_loop_never_rejects:
  assumes ok: "never_rejects llm"
  shows "\<exists>new. snd (chunk_loop llm prompt n i fullContent calls) = calls @ new
            \<and> int (length new) = max 0 (n - int i)
            \<and> fst (chunk_loop llm prompt n i fullContent calls) = Inr (trim (fullContent @ spaced new))
            \<and> (\<forall>k < length new.
                  call_prompt (new ! k) = createChunkPrompt prompt (fullContent @ spaced (take k new)) (i + k) n
                \<and> call_maxTokens (new ! k) = maxTokensPerCall
                \<and> call_outcome (new ! k) = llm (length calls + k) (call_prompt (new ! k)) maxTokensPerCall)"
  using ok
proof (induction llm prompt n i fullContent calls rule: chunk_loop.induct)
  case (1 llm prompt n i fullContent calls)
  note ok = "1.prems"
  show ?case
  proof (cases "int i < n")
    case False
    then show ?thesis by (simp add: chunk_loop.simps [of llm prompt n i] spaced_def)
  next
    case True
    define chunkPrompt where "chunkPrompt = createChunkPrompt prompt fullContent i n"
    from ok have "\<exists>c. llm (length calls) chunkPrompt maxTokensPerCall = Inr c"
      by (simp add: never_rejects_def)
    then obtain chunk where c: "llm (length calls) chunkPrompt maxTokensPerCall = Inr chunk" ..
    define entry where "entry = \<lparr> call_prompt = chunkPrompt, call_maxTokens = maxTokensPerCall,
                                 call_outcome = Inr chunk :: js_error + jstring \<rparr>"
    have step: "chunk_loop llm prompt n i fullContent calls
                 = chunk_loop llm prompt n (Suc i) (fullContent @ chunk @ js '' '') (calls @ [entry])"
      using True c by (subst chunk_loop.simps) (simp add: Let_def chunkPrompt_def entry_def)
    from "1.IH" [OF True chunkPrompt_def refl refl c ok] c
    obtain new where new:
      "snd (chunk_loop llm prompt n (Suc i) (fullContent @ chunk @ js '' '') (calls @ [entry])) = (calls @ [entry]) @ new"
      "int (length new) = max 0 (n - int (Suc i))"
      "fst (chunk_loop llm prompt n (Suc i) (fullContent @ chunk @ js '' '') (calls @ [entry]))
         = Inr (trim ((fullContent @ chunk @ js '' '') @ spaced new))"
      "\<forall>k < length new.
          call_prompt (new ! k) = createChunkPrompt prompt ((fullContent @ chunk @ js '' '') @ spaced (take k new)) (Suc i + k) n
        \<and> call_maxTokens (new ! k) = maxTokensPerCall
        \<and> call_outcome (new ! k) = llm (length (calls @ [entry]) + k) (call_prompt (new ! k)) maxTokensPerCall"
      unfolding entry_def by auto
    have sp: "spaced (entry # xs) = chunk @ js '' '' @ spaced xs" for xs
      by (simp add: spaced_def chunk_of_def entry_def)
    have "\<forall>k < length (entry # new).
          call_prompt ((entry # new) ! k) = createChunkPrompt prompt (fullContent @ spaced (take k (entry # new))) (i + k) n
        \<and> call_maxTokens ((entry # new) ! k) = maxTokensPerCall
        \<and> call_outcome ((entry # new) ! k) = llm (length calls + k) (call_prompt ((entry # new) ! k)) maxTokensPerCall"
    proof (intro allI impI)
      fix k assume k: "k < length (entry # new)"
      show "call_prompt ((entry # new) ! k) = createChunkPrompt prompt (fullContent @ spaced (take k (entry # new))) (i + k) n
        \<and> call_maxTokens ((entry # new) ! k) = maxTokensPerCall
        \<and> call_outcome ((entry # new) ! k) = llm (length calls + k) (call_prompt ((entry # new) ! k)) maxTokensPerCall"
      proof (cases k)
        case 0
        then show ?thesis using c by (simp add: entry_def chunkPrompt_def spaced_def)
      next
        case (Suc j)
        with k have "j < length new" by simp
        with new(4) Suc show ?thesis by (simp add: sp)
      qed
    qed
    moreover have "int (length (entry # new)) = max 0 (n - int i)" using new(2) True by simp
    moreover have "snd (chunk_loop llm prompt n i fullContent calls) = calls @ (entry # new)"
      using step new(1) by simp
    moreover have "fst (chunk_loop llm prompt n i fullContent calls) = Inr (trim (fullContent @ spaced (entry # new)))"
      using step new(3) by (simp add: sp)
    ultimately show ?thesis by blast
  qed
qed

lemma is_space_32: "is_space 32" by (simp add: is_space_def)

lemma trim_append_space: "trim (s @ js '' '') = trim s"
proof (cases "\<forall>x \<in> set s. is_space x")
  case True
  then have "\<forall>x \<in> set (s @ js '' ''). is_space x"
    by (simp add: js_def is_space_32)
  then have a: "dropWhile is_space (s @ js '' '') = []"
    unfolding dropWhile_eq_Nil_conv .
  from True have b: "dropWhile is_space s = []"
    unfolding dropWhile_eq_Nil_conv .
  show ?thesis unfolding trim_def a b by (rule refl)
next
  case False
  then have "dropWhile is_space (s @ js '' '') = dropWhile is_space s @ js '' ''"
    by (auto simp: dropWhile_append)
  then show ?thesis by (simp add: trim_def js_def is_space_32)
qed

lemma concat_spaced_join:
  "xs \<noteq> [] \<Longrightarrow> concat (map (\<lambda>c. c @ sep) xs) = js_join sep xs @ sep"
  by (induction sep xs rule: js_join.induct) simp_all

lemma trim_spaced: "trim (spaced calls) = trim (js_join (js '' '') (map chunk_of calls))"
proof (cases "calls = []")
  case True
  then show ?thesis by (simp add: spaced_def)
next
  case False
  then have "spaced calls = js_join (js '' '') (map chunk_of calls) @ js '' ''"
    using concat_spaced_join [of "map chunk_of calls" "js '' ''"]
    by (simp add: spaced_def comp_def)
  then show ?thesis by (simp add: trim_append_space)
qed

text \<open>
  C6.  With a model client that never rejects, \<open>generateLongContent\<close> makes exactly
  \<open>ceil(desiredWordCount / estimatedWordsPerCall)\<close> calls (none when the word count is
  not positive), where the budget per call is the constant
  \<open>estimatedWordsPerCall = floor(6000 * 0.75) = 4500\<close>.  The calls are sequential: call
  \<open>k\<close> is the \<open>k\<close>-th call the client sees, and its prompt is built from the chunks
  returned before it.  The result is the chunks in call order joined by one space,
  trimmed.
\<close>

theorem generateLongContent_calls_and_result:
  assumes ok: "never_rejects llm"
  shows "estimatedWordsPerCall = 4500 \<and>
         (let r = generateLongContent llm prompt desiredWordCount; calls = snd r in
           int (length calls) = max 0 \<lceil>real_of_int desiredWordCount / real_of_int estimatedWordsPerCall\<rceil>
         \<and> fst r = Inr (trim (js_join (js '' '') (map chunk_of calls)))
         \<and> (\<forall>k < length calls.
               call_prompt (calls ! k)
                 = createChunkPrompt prompt (spaced (take k calls)) k (chunksNeeded desiredWordCount)
             \<and> call_maxTokens (calls ! k) = 6000
             \<and> call_outcome (calls ! k) = llm k (call_prompt (calls ! k)) maxTokensPerCall
             \<and> call_outcome (calls ! k) = Inr (chunk_of (calls ! k))))"
proof -
  from chunk_loop_never_rejects [OF ok, of prompt "chunksNeeded desiredWordCount" 0 "[]" "[]"]
  obtain new where new:
    "snd (generateLongContent llm prompt desiredWordCount) = new"
    "int (length new) = max 0 (chunksNeeded desiredWordCount)"
    "fst (generateLongContent llm prompt desiredWordCount) = Inr (trim (spaced new))"
    "\<forall>k < length new.
        call_prompt (new ! k) = createChunkPrompt prompt (spaced (take k new)) k (chunksNeeded desiredWordCount)
      \<and> call_maxTokens (new ! k) = maxTokensPerCall
      \<and> call_outcome (new ! k) = llm k (call_prompt (new ! k)) maxTokensPerCall"
    by (auto simp: generateLongContent_def)
  have out: "call_outcome (new ! k) = Inr (chunk_of (new ! k))" if "k < length new" for k
  proof -
    from ok obtain c where "llm k (call_prompt (new ! k)) maxTokensPerCall = Inr c"
      unfolding never_rejects_def by metis
    with new(4) that show ?thesis by (simp add: chunk_of_def)
  qed
  show ?thesis
    using new out
    by (simp add: Let_def trim_spaced chunksNeeded_def estimatedWordsPerCall_value maxTokensPerCall_def)
qed

lemma numbered_client_never_rejects: "never_rejects numbered_client"
  by (simp add: never_rejects_def numbered_client_def)

lemma chunksNeeded_8000: "chunksNeeded 8000 = 2"
  by (simp add: chunksNeeded_def estimatedWordsPerCall_value)

lemma numbered_client_run: "fst (generateLongContent numbered_client (js ''Deep research on tides'') 8000) = Inr (js ''chunk0 chunk1'')"
  by (simp add: generateLongContent_def chunksNeeded_8000 chunk_loop.simps Let_def numbered_client_def
        trim_def is_space_def js_def js_of_nat.simps)

theorem generateLongContent_calls_and_result_witness:
  "never_rejects numbered_client \<and>
   length (snd (generateLongContent numbered_client (js ''Deep research on tides'') 8000)) = 2 \<and>
   fst (generateLongContent numbered_client (js ''Deep research on tides'') 8000) = Inr (js ''chunk0 chunk1'')"
proof -
  from generateLongContent_calls_and_result [OF numbered_client_never_rejects, of "js ''Deep research on tides''" 8000]
  have "int (length (snd (generateLongContent numbered_client (js ''Deep research on tides'') 8000))) = 2"
    by (simp add: Let_def estimatedWordsPerCall_value)
  then show ?thesis using numbered_client_never_rejects numbered_client_run by simp
qed

section \<open>Concurrent fan-out: helper facts\<close>

















section \<open>Section order\<close>











section \<open>Isolation of a failing item\<close>

















section \<open>Summarize stage\<close>

lemmas summarize_unrolled =
  summarize_loop.simps [where attempt = 0]
  summarize_loop.simps [where attempt = "Suc 0"]
  summarize_loop.simps [where attempt = "Suc (Suc 0)"]

lemma summarize_three_failures:
  assumes "llm 0 (summary_prompt ps (search_context rs)) 5000 = Inl e0"
    and "llm (Suc 0) (summary_prompt ps (search_context rs)) 5000 = Inl e1"
    and "llm (Suc (Suc 0)) (summary_prompt ps (search_context rs)) 5000 = Inl e2"
  shows "fst (summarizeSearchResults llm ps rs) = Inl e2"
  using assms by (simp add: summarizeSearchResults_def summarize_unrolled Let_def)


section \<open>Model client: retries, errors and the two versions\<close>




lemma rate_limited_no_fall:
  "rate_limited attempts x = (s, attempts') \<Longrightarrow> x \<noteq> FallsThrough \<Longrightarrow> s \<noteq> FallsThrough"
  by (auto simp: rate_limited_def Let_def split: if_splits)

lemma backend_try_no_fall:
  "backend_try outcome attempts = (s, attempts') \<Longrightarrow> s \<noteq> FallsThrough"
  by (auto simp: backend_try_def Let_def
      split: fetch_outcome.splits if_splits sum.splits backend_json.splits backend_failure.splits
        js_content.splits
      dest: rate_limited_no_fall)






lemma direct_iteration_rate_limited:
  assumes "\<not> svc_useBackend svc" "svc_apiKey svc \<noteq> placeholder_key"
    and "api_rate_limited (direct_fetch tr (fetches events))"
  shows "iteration svc tr prompt attempts events
           = (if attempts + 1 \<le> maxRetries then Again (2 ^ (attempts + 1) * 1000) else Returns skip_sentinel,
              attempts + 1, events @ [FetchDirect])"
  using assms
  by (auto simp: iteration_def proxy_part_def direct_part_def direct_call_def api_rate_limited_def
      rate_limited_def Let_def split: fetch_outcome.splits sum.splits)

lemma fetches_simps [simp]:
  "fetches [] = 0"
  "fetches (events @ [FetchDirect]) = Suc (fetches events)"
  "fetches (events @ [FetchBackend]) = Suc (fetches events)"
  "fetches (events @ [Wait ms]) = fetches events"
  by (simp_all add: fetches_def)

lemma callLLM_direct_rate_limited:
  assumes d: "\<not> svc_useBackend svc" and k: "svc_apiKey svc \<noteq> placeholder_key"
    and r: "\<forall>n. api_rate_limited (direct_fetch tr n)"
  shows "callLLM svc tr prompt
           = (Inr (Some skip_sentinel),
              [FetchDirect, Wait 2000, FetchDirect, Wait 4000, FetchDirect, Wait 8000, FetchDirect])"
proof -
  note it = direct_iteration_rate_limited [OF d k r [rule_format]]
  have "callLLM_loop svc tr prompt (Suc (Suc (Suc 0))) [FetchDirect, Wait 2000, FetchDirect, Wait 4000, FetchDirect, Wait 8000]
          = (Inr (Some skip_sentinel),
              [FetchDirect, Wait 2000, FetchDirect, Wait 4000, FetchDirect, Wait 8000, FetchDirect])"
    by (subst callLLM_loop.simps) (simp add: it maxRetries_def)
  then have "callLLM_loop svc tr prompt (Suc (Suc 0)) [FetchDirect, Wait 2000, FetchDirect, Wait 4000]
          = (Inr (Some skip_sentinel),
              [FetchDirect, Wait 2000, FetchDirect, Wait 4000, FetchDirect, Wait 8000, FetchDirect])"
    by (subst callLLM_loop.simps) (simp add: it maxRetries_def)
  then have "callLLM_loop svc tr prompt (Suc 0) [FetchDirect, Wait 2000]
          = (Inr (Some skip_sentinel),
              [FetchDirect, Wait 2000, FetchDirect, Wait 4000, FetchDirect, Wait 8000, FetchDirect])"
    by (subst callLLM_loop.simps) (simp add: it maxRetries_def)
  then show ?thesis
    unfolding callLLM_def by (subst callLLM_loop.simps) (simp add: it maxRetries_def)
qed

lemma callLLM_direct_rate_limited_counts:
  assumes "\<not> svc_useBackend svc" and "svc_apiKey svc \<noteq> placeholder_key"
    and "\<forall>n. api_rate_limited (direct_fetch tr n)"
  shows "fetches (snd (callLLM svc tr prompt)) = 4" and "total_wait (snd (callLLM svc tr prompt)) = 14000"
  by (simp_all add: callLLM_direct_rate_limited [OF assms] fetches_def total_wait_def)

lemma loop_returns:
  "attempts \<le> maxRetries \<Longrightarrow> iteration svc tr prompt attempts events = (Returns c, a, ev) \<Longrightarrow>
   callLLM_loop svc tr prompt attempts events = (Inr (Some c), ev)"
  by (subst callLLM_loop.simps) simp

lemma direct_first_returns:
  assumes "\<not> svc_useBackend svc" "svc_apiKey svc \<noteq> placeholder_key"
    and "direct_call (direct_fetch tr 0) 0 = (Returns c, a)"
  shows "callLLM svc tr prompt = (Inr (Some c), [FetchDirect])"
  unfolding callLLM_def
  by (rule loop_returns [where a = a]) (use assms in \<open>simp_all add: iteration_def proxy_part_def direct_part_def\<close>)


lemma live_key: "svc_apiKey live_service \<noteq> placeholder_key" "\<not> svc_useBackend live_service"
  by (simp_all add: live_service_def placeholder_key_def js_def)

lemma proxied_key: "svc_apiKey proxied_service \<noteq> placeholder_key" "svc_useBackend proxied_service"
  by (simp_all add: proxied_service_def placeholder_key_def js_def)

lemma exhausted_proxy_message_not_recognised:
  "\<not> proxy_mentions_rate_limit
       (err_message (new_Error (retries_message @ js_of_nat 429 @ js '' '' @ js ''Too Many Requests'')))"
  by (simp add: proxy_mentions_rate_limit_def new_Error_def retries_message_def maxRetries_def
      js_of_nat.simps js_def)

lemma proxy_iteration_retry:
  assumes "attempts < maxRetries"
  shows "iteration proxied_service throttled prompt attempts events
           = (Again (2 ^ (attempts + 1) * 1000), attempts + 1, events @ [FetchBackend])"
  using assms
  by (simp add: iteration_def proxy_part_def backend_try_def throttled_def proxied_key
      proxy_too_many_requests_def response_ok_def rate_limited_def Let_def)

lemma proxy_iteration_exhausted:
  "iteration proxied_service throttled prompt 3 events
     = (Returns skip_sentinel, 5, events @ [FetchBackend, FetchDirect])"
proof -
  have "backend_try (backend_fetch throttled (fetches events)) 3
          = (Throws (new_Error (retries_message @ js_of_nat 429 @ js '' '' @ js ''Too Many Requests'')), 4)"
    by (simp add: backend_try_def throttled_def proxy_too_many_requests_def response_ok_def
        rate_limited_def Let_def maxRetries_def)
  moreover have "direct_call (direct_fetch throttled (fetches (events @ [FetchBackend]))) 4
          = (Returns skip_sentinel, 5)"
    by (simp add: direct_call_def throttled_def too_many_requests_def response_ok_def
        rate_limited_def Let_def maxRetries_def)
  ultimately show ?thesis
    using exhausted_proxy_message_not_recognised
    by (simp add: iteration_def proxy_part_def direct_part_def backend_catch_def proxied_key Let_def)
qed

text \<open>
  C1 on the code.  With the backend proxy switched on, a key configured, and a proxy
  and an API that answer every request with status 429, \<open>callLLM\<close> makes five
  fetches, not four: four to the proxy with waits of 2, 4 and 8 seconds between them,
  and then one to the API, before it resolves with the skip sentinel.  The error thrown
  when the proxy retries are used up starts with a capital (\<open>Rate limit exceeded\<close>),
  the \<open>catch\<close> block looks for \<open>rate limit\<close>, so the error is taken for another failure
  of the proxy and the direct call is made.  (With the proxy off the run makes four
  fetches: \<open>callLLM_direct_rate_limited\<close>.)
\<close>

theorem proxy_rate_limit_takes_five_fetches:
  "callLLM proxied_service throttled (js ''Explain tides'')
     = (Inr (Some skip_sentinel),
        [FetchBackend, Wait 2000, FetchBackend, Wait 4000, FetchBackend, Wait 8000,
         FetchBackend, FetchDirect]) \<and>
   fetches (snd (callLLM proxied_service throttled (js ''Explain tides''))) = 5 \<and>
   total_wait (snd (callLLM proxied_service throttled (js ''Explain tides''))) = 14000"
proof -
  have "callLLM_loop proxied_service throttled (js ''Explain tides'') (Suc (Suc (Suc 0)))
          [FetchBackend, Wait 2000, FetchBackend, Wait 4000, FetchBackend, Wait 8000]
        = (Inr (Some skip_sentinel),
           [FetchBackend, Wait 2000, FetchBackend, Wait 4000, FetchBackend, Wait 8000,
            FetchBackend, FetchDirect])"
    using proxy_iteration_exhausted [of "js ''Explain tides''"]
    by (subst callLLM_loop.simps) (simp add: maxRetries_def numeral_3_eq_3)
  then have "callLLM_loop proxied_service throttled (js ''Explain tides'') (Suc (Suc 0))
          [FetchBackend, Wait 2000, FetchBackend, Wait 4000]
        = (Inr (Some skip_sentinel),
           [FetchBackend, Wait 2000, FetchBackend, Wait 4000, FetchBackend, Wait 8000,
            FetchBackend, FetchDirect])"
    by (subst callLLM_loop.simps) (simp add: proxy_iteration_retry maxRetries_def)
  then have "callLLM_loop proxied_service throttled (js ''Explain tides'') (Suc 0)
          [FetchBackend, Wait 2000]
        = (Inr (Some skip_sentinel),
           [FetchBackend, Wait 2000, FetchBackend, Wait 4000, FetchBackend, Wait 8000,
            FetchBackend, FetchDirect])"
    by (subst callLLM_loop.simps) (simp add: proxy_iteration_retry maxRetries_def)
  then have "callLLM proxied_service throttled (js ''Explain tides'')
        = (Inr (Some skip_sentinel),
           [FetchBackend, Wait 2000, FetchBackend, Wait 4000, FetchBackend, Wait 8000,
            FetchBackend, FetchDirect])"
    unfolding callLLM_def
    by (subst callLLM_loop.simps) (simp add: proxy_iteration_retry maxRetries_def)
  then show ?thesis by (simp add: fetches_def total_wait_def)
qed


lemma noretry_direct:
  assumes "svc_apiKey svc \<noteq> placeholder_key" "\<not> svc_useBackend svc"
    and "direct_fetch tr 0 = FetchResolves r" "response_ok r" "resp_json r = ChatChoice (Str c)"
  shows "callLLM_noretry svc tr prompt = (Inr (Some c), [FetchDirect])"
  using assms by (simp add: callLLM_noretry_def noretry_direct_call_def)

lemma noretry_proxy:
  assumes "svc_apiKey svc \<noteq> placeholder_key" "svc_useBackend svc"
    and "backend_fetch tr 0 = FetchResolves b" "response_ok b" "resp_json b = BackendSuccess (Str c)"
  shows "callLLM_noretry svc tr prompt = (Inr (Some c), [FetchBackend])"
  using assms by (simp add: callLLM_noretry_def noretry_backend_try_def)

text \<open>
  C10.  With a key configured, when the first fetch resolves with a well-formed
  successful response, the version of \<open>callLLM\<close> with the retry loop and the version
  without it make that one fetch and return the same string: the \<open>content\<close> of
  \<open>data.choices[0].message\<close> for the direct call, and \<open>responseData.result\<close> for the
  proxy.
\<close>

theorem callLLM_versions_agree_on_first_success:
  "svc_apiKey svc \<noteq> placeholder_key \<longrightarrow>
     (\<not> svc_useBackend svc \<and> direct_fetch tr 0 = FetchResolves r \<and> response_ok r
        \<and> resp_json r = ChatChoice (Str c) \<longrightarrow>
        callLLM svc tr prompt = (Inr (Some c), [FetchDirect]) \<and>
        callLLM_noretry svc tr prompt = (Inr (Some c), [FetchDirect])) \<and>
     (svc_useBackend svc \<and> backend_fetch tr 0 = FetchResolves b \<and> response_ok b
        \<and> resp_json b = BackendSuccess (Str c) \<longrightarrow>
        callLLM svc tr prompt = (Inr (Some c), [FetchBackend]) \<and>
        callLLM_noretry svc tr prompt = (Inr (Some c), [FetchBackend]))"
proof (intro conjI impI)
  assume k: "svc_apiKey svc \<noteq> placeholder_key"
    and f: "\<not> svc_useBackend svc \<and> direct_fetch tr 0 = FetchResolves r \<and> response_ok r
        \<and> resp_json r = ChatChoice (Str c)"
  show "callLLM svc tr prompt = (Inr (Some c), [FetchDirect])"
    by (rule direct_first_returns [where a = 0]) (use k f in \<open>simp_all add: direct_call_def\<close>)
  from f have "\<not> svc_useBackend svc" "direct_fetch tr 0 = FetchResolves r" "response_ok r"
    "resp_json r = ChatChoice (Str c)" by blast+
  with k show "callLLM_noretry svc tr prompt = (Inr (Some c), [FetchDirect])"
    by (rule noretry_direct)
next
  assume k: "svc_apiKey svc \<noteq> placeholder_key"
    and f: "svc_useBackend svc \<and> backend_fetch tr 0 = FetchResolves b \<and> response_ok b
        \<and> resp_json b = BackendSuccess (Str c)"
  have "iteration svc tr prompt 0 [] = (Returns c, 0, [FetchBackend])"
    using f by (simp add: iteration_def proxy_part_def backend_try_def)
  then show "callLLM svc tr prompt = (Inr (Some c), [FetchBackend])"
    unfolding callLLM_def by (intro loop_returns) simp_all
  from f have "svc_useBackend svc" "backend_fetch tr 0 = FetchResolves b" "response_ok b"
    "resp_json b = BackendSuccess (Str c)" by blast+
  with k show "callLLM_noretry svc tr prompt = (Inr (Some c), [FetchBackend])"
    by (rule noretry_proxy)
qed



theorem callLLM_versions_agree_on_first_success_witness:
  "callLLM live_service healthy (js ''Explain tides'')
     = (Inr (Some (js ''Tides follow the moon.'')), [FetchDirect]) \<and>
   callLLM_noretry live_service healthy (js ''Explain tides'')
     = (Inr (Some (js ''Tides follow the moon.'')), [FetchDirect]) \<and>
   callLLM proxied_service healthy (js ''Explain tides'')
     = (Inr (Some (js ''Tides follow the moon.'')), [FetchBackend]) \<and>
   callLLM_noretry proxied_service healthy (js ''Explain tides'')
     = (Inr (Some (js ''Tides follow the moon.'')), [FetchBackend])"
  using callLLM_versions_agree_on_first_success [of live_service healthy completion "js ''Tides follow the moon.''" "js ''Explain tides''"
               proxy_completion]
        callLLM_versions_agree_on_first_success [of proxied_service healthy completion "js ''Tides follow the moon.''" "js ''Explain tides''"
               proxy_completion]
        live_key proxied_key
  by (simp add: healthy_def completion_def proxy_completion_def response_ok_def)

end
